theory Spec2Isabelle
  imports Main "HOL-Library.Sublist"
begin

section \<open>Values, errors and the regular-expression capability\<close>

text \<open>
  The operations of the repository raise Python exceptions; the model returns them as
  values of the type \<open>error\<close>, on the left of a sum. Assertion failures and
  \<open>NotImplementedError\<close> carry their message.
\<close>

datatype error =
    AssertionError string
  | NotImplementedError string
  | IndexError
  | TypeError
  | RegexError
  | RecursionError
  | JSONDecodeError
  | ValueError
  | NetworkXError

text \<open>
  A cell of a table that holds text: a Python \<open>str\<close>, or the missing value
  (\<open>NaN\<close>) that the tabular engine writes where a left outer merge finds no match.
\<close>

datatype cell = Str string | NaN

text \<open>
  Python's \<open>re\<close> module is a library, not code of the repository; it is a
  parameter of the model. \<open>re.compile(pattern)\<close> either raises \<open>re.error\<close>
  (\<open>None\<close>) or returns a compiled pattern; the compiled pattern's \<open>match\<close>
  method, given a string, returns \<open>None\<close> (no match at the start of the string)
  or a match object, of which the code reads only \<open>groups()\<close>: one entry per
  capture group, \<open>None\<close> for a group that took no part in the match.
\<close>

type_synonym compiled_pattern = "string \<Rightarrow> string option list option"

type_synonym re_module = "string \<Rightarrow> compiled_pattern option"

text \<open>
  Modelled from the spec: the classes \<open>Transform\<close> and \<open>Source\<close> of
  \<open>structure_graph/nodes/source.py\<close>, of which the operations read the fields
  below. A source is a reference (node id and column) plus an ordered list of transforms;
  a transform is a regex extraction when its \<open>regex\<close> is present.
\<close>

record transform =
  regex :: "string option"

record source =
  reference :: "string list option"
  apply_transform :: "transform list"

section \<open>Transforms (join.py)\<close>

text \<open>
  The loop \<open>for group in match.groups(): if group is not None: return group\<close>:
  the first group that is not \<open>None\<close>, if there is one.
\<close>

fun first_group :: "string option list \<Rightarrow> string option" where
  "first_group [] = None"
| "first_group (None # groups) = first_group groups"
| "first_group (Some g # groups) = Some g"

text \<open>
  \<open>apply_transform_fn(value, transform)\<close>. The pattern is compiled first, then
  matched against the value; \<open>match\<close> raises \<open>TypeError\<close> on a value that is
  not a string.
\<close>

definition apply_transform_fn :: "re_module \<Rightarrow> cell \<Rightarrow> transform \<Rightarrow> error + cell" where
  "apply_transform_fn re_compile value t =
     (case regex t of
        None \<Rightarrow> Inr value
      | Some r \<Rightarrow>
          (case re_compile r of
             None \<Rightarrow> Inl RegexError
           | Some source_regex \<Rightarrow>
               (case value of
                  NaN \<Rightarrow> Inl TypeError
                | Str s \<Rightarrow>
                    (case source_regex s of
                       None \<Rightarrow> Inr value
                     | Some groups \<Rightarrow>
                         (case first_group groups of
                            Some g \<Rightarrow> Inr (Str g)
                          | None \<Rightarrow> Inr value)))))"

text \<open>The loop of \<open>apply_transforms_fn\<close> over the transforms of a source, in order.\<close>

fun apply_transforms_loop :: "re_module \<Rightarrow> cell \<Rightarrow> transform list \<Rightarrow> error + cell" where
  "apply_transforms_loop re_compile value [] = Inr value"
| "apply_transforms_loop re_compile value (t # transforms) =
     (case apply_transform_fn re_compile value t of
        Inl e \<Rightarrow> Inl e
      | Inr value' \<Rightarrow> apply_transforms_loop re_compile value' transforms)"

definition apply_transforms_fn :: "re_module \<Rightarrow> cell \<Rightarrow> source option \<Rightarrow> error + cell" where
  "apply_transforms_fn re_compile value src =
     (case src of
        None \<Rightarrow> Inr value
      | Some s \<Rightarrow> apply_transforms_loop re_compile value (apply_transform s))"

subsection \<open>A fragment of Python's \<open>re\<close> for concrete runs\<close>

text \<open>
  Two patterns, matched as \<open>re.compile(p).match(s)\<close> matches them, for every string:
  \<open>a(.*)\<close> matches a string that starts with \<open>a\<close>, its group being the rest
  of the first line (the dot does not match a newline); \<open>(a*)(b)\<close> matches a run of
  \<open>a\<close>, possibly empty, followed by \<open>b\<close>. The fragment knows no other pattern
  and refuses it as \<open>re.compile\<close> refuses a malformed one.
\<close>

definition match_a_rest :: compiled_pattern where
  "match_a_rest s =
     (case s of
        [] \<Rightarrow> None
      | c # rest \<Rightarrow>
          if c = CHR ''a'' then Some [Some (takeWhile (\<lambda>x. x \<noteq> CHR 0x0A) rest)] else None)"

definition match_as_b :: compiled_pattern where
  "match_as_b s =
     (case dropWhile (\<lambda>x. x = CHR ''a'') s of
        [] \<Rightarrow> None
      | c # rest \<Rightarrow>
          if c = CHR ''b'' then Some [Some (takeWhile (\<lambda>x. x = CHR ''a'') s), Some ''b'']
          else None)"

definition re_fragment :: re_module where
  "re_fragment pat =
     (if pat = ''a(.*)'' then Some match_a_rest
      else if pat = ''(a*)(b)'' then Some match_as_b
      else None)"

subsection \<open>The extraction as the spec words it\<close>

text \<open>
  The spec describes the regex extraction as taking the first non-empty capture group.
  This second definition follows those words: it skips a group that is \<open>None\<close>
  and a group that holds the empty string. It is compared with \<open>first_group\<close>,
  which follows the code.
\<close>

fun spec_first_nonempty_group :: "string option list \<Rightarrow> string option" where
  "spec_first_nonempty_group [] = None"
| "spec_first_nonempty_group (None # groups) = spec_first_nonempty_group groups"
| "spec_first_nonempty_group (Some g # groups) =
     (if g = [] then spec_first_nonempty_group groups else Some g)"

section \<open>Tables\<close>

text \<open>
  A pandas \<open>DataFrame\<close>, as far as the operations use it: the column labels in
  order, and the rows in order, each row holding one cell per column. The tabular engine
  is a library; the functions of this section model the calls the operations make.
\<close>

record ('c, 'a) dataframe =
  columns :: "'c list"
  rows :: "'a list list"

text \<open>
  \<open>pd.DataFrame(d)\<close> for a dict \<open>d\<close> from column labels to lists of values,
  in the order of the dict: row \<open>i\<close> holds the \<open>i\<close>-th value of every list.
  Lists of different lengths raise \<open>ValueError\<close>.
\<close>

definition DataFrame :: "('c \<times> 'a list) list \<Rightarrow> error + ('c, 'a) dataframe" where
  "DataFrame d =
     (case d of
        [] \<Rightarrow> Inr \<lparr>columns = [], rows = []\<rparr>
      | (c, vs) # rest \<Rightarrow>
          if list_all (\<lambda>(c', vs'). length vs' = length vs) rest
          then Inr \<lparr>columns = map fst d,
                    rows = map (\<lambda>i. map (\<lambda>(c', vs'). vs' ! i) d) [0..<length vs]\<rparr>
          else Inl ValueError)"

text \<open>The position of the first column with a label, and the cell of a row under it.\<close>

fun index_of :: "'c list \<Rightarrow> 'c \<Rightarrow> nat" where
  "index_of [] c = 0"
| "index_of (x # xs) c = (if x = c then 0 else Suc (index_of xs c))"

definition cell_at :: "'c list \<Rightarrow> cell list \<Rightarrow> 'c \<Rightarrow> cell" where
  "cell_at cols row c = (let i = index_of cols c in if i < length row then row ! i else NaN)"

text \<open>\<open>df[c]\<close>, the values of a column, and \<open>df[c] = values\<close> for a column of the table.\<close>

definition get_column :: "('c, cell) dataframe \<Rightarrow> 'c \<Rightarrow> cell list" where
  "get_column df c = map (\<lambda>row. cell_at (columns df) row c) (rows df)"

definition set_column :: "('c, cell) dataframe \<Rightarrow> 'c \<Rightarrow> cell list \<Rightarrow> ('c, cell) dataframe" where
  "set_column df c values =
     df\<lparr>rows := map (\<lambda>(row, v). row[index_of (columns df) c := v]) (zip (rows df) values)\<rparr>"

text \<open>
  \<open>series.transform(f)\<close>: \<open>f\<close> applied to each value in turn. An exception
  on a value makes the call fail (the library may raise it again under another class; the
  model keeps the exception of the value).
\<close>

fun transform_series :: "(cell \<Rightarrow> error + cell) \<Rightarrow> cell list \<Rightarrow> error + cell list" where
  "transform_series f [] = Inr []"
| "transform_series f (x # xs) =
     (case f x of
        Inl e \<Rightarrow> Inl e
      | Inr y \<Rightarrow>
          (case transform_series f xs of
             Inl e \<Rightarrow> Inl e
           | Inr ys \<Rightarrow> Inr (y # ys)))"

text \<open>
  \<open>df_left.merge(df_right, left_on=..., right_on=..., how="left")\<close>: the left outer
  merge. The rows of the left table are kept in order; each is paired with every row of
  the right table whose key cell equals its own, in the order of the right table, or,
  when there is none, with missing values. The columns are those of the left table
  followed by those of the right table; when both keys have the same label the key
  appears once, with the left table's values. A label that stands on both sides gets the
  suffixes \<open>_x\<close> and \<open>_y\<close>.
\<close>

definition right_part :: "string \<Rightarrow> string \<Rightarrow> nat \<Rightarrow> 'a list \<Rightarrow> 'a list" where
  "right_part left_on right_on k xs =
     (if left_on = right_on then take k xs @ drop (Suc k) xs else xs)"

definition merge ::
  "(string, cell) dataframe \<Rightarrow> (string, cell) dataframe \<Rightarrow> string \<Rightarrow> string \<Rightarrow>
   (string, cell) dataframe" where
  "merge df_left df_right left_on right_on =
     (let lcols = columns df_left;
          rcols = columns df_right;
          k = index_of rcols right_on;
          rcols' = right_part left_on right_on k rcols;
          overlap = (\<lambda>c. c \<in> set lcols \<and> c \<in> set rcols');
          missing = replicate (length rcols') NaN
      in \<lparr>columns = map (\<lambda>c. if overlap c then c @ ''_x'' else c) lcols @
                     map (\<lambda>c. if overlap c then c @ ''_y'' else c) rcols',
          rows = concat (map (\<lambda>l.
                   let matches = filter (\<lambda>r. cell_at rcols r right_on = cell_at lcols l left_on)
                                   (rows df_right)
                   in if matches = [] then [l @ missing]
                      else map (\<lambda>r. l @ right_part left_on right_on k r) matches)
                 (rows df_left))\<rparr>)"

section \<open>The Join operation (join.py)\<close>

text \<open>The decimal digits of a number, as an f-string prints \<open>len(args)\<close>.\<close>

function str_nat :: "nat \<Rightarrow> string" where
  "str_nat n =
     (if n < 10 then [''0123456789'' ! n]
      else str_nat (n div 10) @ [''0123456789'' ! (n mod 10)])"
  by pat_completeness auto
termination
  by (relation "measure (\<lambda>n. n)") auto

text \<open>The messages of the assertions of \<open>Join.__call__\<close>.\<close>

definition reference_is_None :: "string \<Rightarrow> string \<Rightarrow> string" where
  "reference_is_None side uid =
     side @ '' reference for \"'' @ uid @ ''\" is None. It should be a valid reference.''"

definition column_does_not_exist :: "string \<Rightarrow> string \<Rightarrow> string \<Rightarrow> string" where
  "column_does_not_exist key node_name existing =
     ''Column \"'' @ key @ ''\" does not exist in node \"'' @ node_name @
     ''\". Existing columns: '' @ existing"

text \<open>
  The roles of the two operands: \<open>df_left, df_right = args\<close>, swapped when the left
  key is not a column of the first operand or the right key is not a column of the
  second.
\<close>

definition operand_roles ::
  "string \<Rightarrow> string \<Rightarrow> (string, cell) dataframe \<Rightarrow> (string, cell) dataframe \<Rightarrow>
   (string, cell) dataframe \<times> (string, cell) dataframe" where
  "operand_roles left_key right_key a b =
     (if left_key \<notin> set (columns a) \<or> right_key \<notin> set (columns b) then (b, a) else (a, b))"

text \<open>
  \<open>Join.__call__(self, *args, left=None, right=None)\<close>. The parameters of the model
  are the \<open>re\<close> module, the text pandas prints for the column index of a table
  (\<open>repr_columns\<close>, read only by the messages) and the uid of the operation's node.
  The branches follow the source in order: one operand is returned as it is; with two
  operands the references are checked, the keys are read (\<open>reference[1]\<close>, an
  \<open>IndexError\<close> on a shorter tuple), the roles of the operands are settled, the
  assertions on the keys are checked, the left key column is transformed and the tables
  are merged; any other number of operands raises \<open>NotImplementedError\<close>.
  The source also stores the transformed key column into the left operand in place; the
  model returns the result of the call only.
\<close>

definition Join_call ::
  "re_module \<Rightarrow> (string list \<Rightarrow> string) \<Rightarrow> string \<Rightarrow> (string, cell) dataframe list \<Rightarrow>
   source option \<Rightarrow> source option \<Rightarrow> error + (string, cell) dataframe" where
  "Join_call re_compile repr_columns node_uid args left right =
     (case args of
        [a] \<Rightarrow> Inr a
      | [a, b] \<Rightarrow>
          (case (case left of None \<Rightarrow> None | Some l \<Rightarrow> reference l) of
             None \<Rightarrow> Inl (AssertionError (reference_is_None ''Left'' node_uid))
           | Some left_reference \<Rightarrow>
               (case (case right of None \<Rightarrow> None | Some r \<Rightarrow> reference r) of
                  None \<Rightarrow> Inl (AssertionError (reference_is_None ''Right'' node_uid))
                | Some right_reference \<Rightarrow>
                    if length left_reference < 2 then Inl IndexError
                    else if length right_reference < 2 then Inl IndexError
                    else
                      let left_key = left_reference ! 1;
                          right_key = right_reference ! 1;
                          (df_left, df_right) = operand_roles left_key right_key a b
                      in if length left_reference \<noteq> 2
                         then Inl (AssertionError ''JOIN operation does not define a column name.'')
                         else if left_key \<notin> set (columns df_left)
                         then Inl (AssertionError (column_does_not_exist left_key
                                 (left_reference ! 0) (repr_columns (columns df_left))))
                         else if right_key \<notin> set (columns df_right)
                         then Inl (AssertionError (column_does_not_exist right_key
                                 (right_reference ! 0) (repr_columns (columns df_right))))
                         else
                           (case transform_series (\<lambda>value. apply_transforms_fn re_compile value left)
                                   (get_column df_left left_key) of
                              Inl e \<Rightarrow> Inl e
                            | Inr values \<Rightarrow>
                                Inr (merge (set_column df_left left_key values) df_right
                                       left_key right_key))))
      | _ \<Rightarrow>
          Inl (NotImplementedError
                (''Unsupported: Trying to joing '' @ str_nat (length args) @ '' pd.DataFrames.'')))"

subsection \<open>Sample tables for concrete runs\<close>

text \<open>
  The text of a column index, as pandas prints it for plain labels:
  \<open>Index(['by', 'title'], dtype='object')\<close>.
\<close>

fun comma_join :: "string list \<Rightarrow> string" where
  "comma_join [] = []"
| "comma_join [x] = x"
| "comma_join (x # y # ys) = x @ '', '' @ comma_join (y # ys)"

definition repr_columns_plain :: "string list \<Rightarrow> string" where
  "repr_columns_plain cols =
     ''Index(['' @ comma_join (map (\<lambda>c. [CHR 0x27] @ c @ [CHR 0x27]) cols) @
     ''], dtype='' @ [CHR 0x27] @ ''object'' @ [CHR 0x27] @ '')''"

text \<open>
  Files named \<open>a1\<close>, \<open>a2\<close> and labels keyed by \<open>1\<close>: the left source
  refers to the column \<open>name\<close> and extracts the key with the pattern \<open>a(.*)\<close>.
\<close>

definition files_table :: "(string, cell) dataframe" where
  "files_table =
     \<lparr>columns = [''name'', ''size''],
      rows = [[Str ''a1'', Str ''10''], [Str ''a2'', Str ''20'']]\<rparr>"

definition labels_table :: "(string, cell) dataframe" where
  "labels_table = \<lparr>columns = [''key'', ''label''], rows = [[Str ''1'', Str ''cat'']]\<rparr>"

definition files_source :: source where
  "files_source =
     \<lparr>reference = Some [''files'', ''name''], apply_transform = [\<lparr>regex = Some ''a(.*)''\<rparr>]\<rparr>"

definition labels_source :: source where
  "labels_source = \<lparr>reference = Some [''labels'', ''key''], apply_transform = []\<rparr>"

text \<open>Two tables that both have the column \<open>id\<close>, joined on it.\<close>

definition orders_table :: "(string, cell) dataframe" where
  "orders_table = \<lparr>columns = [''id'', ''item''], rows = [[Str ''1'', Str ''pen'']]\<rparr>"

definition customers_table :: "(string, cell) dataframe" where
  "customers_table = \<lparr>columns = [''id'', ''name''], rows = [[Str ''2'', Str ''Bob'']]\<rparr>"

definition orders_source :: source where
  "orders_source = \<lparr>reference = Some [''orders'', ''id''], apply_transform = []\<rparr>"

definition customers_source :: source where
  "customers_source = \<lparr>reference = Some [''customers'', ''id''], apply_transform = []\<rparr>"

section \<open>The Concatenate operation (concatenate.py)\<close>

text \<open>
  Modelled from the spec: the class \<open>Path\<close> of \<open>core/path.py\<close> and the enum
  \<open>FileProperty\<close> of \<open>structure_graph/nodes/source.py\<close>. A path descriptor
  exposes a file path, a file name and a full path; the three are strings here, as
  \<open>os.fspath\<close> returns them. The members of \<open>FileProperty\<close> that label the
  columns of the table are the three path properties.
\<close>

record path =
  filepath :: string
  filename :: string
  fullpath :: string

datatype FileProperty = FileProperty_filepath | FileProperty_filename | FileProperty_fullpath

text \<open>\<open>Concatenate.__call__(self, *paths)\<close>.\<close>

definition Concatenate_call :: "path list \<Rightarrow> error + (FileProperty, string) dataframe" where
  "Concatenate_call paths =
     (if \<not> length paths > 0 then Inl (AssertionError ''No path to concatenate.'')
      else DataFrame
             [(FileProperty_filepath, map filepath paths),
              (FileProperty_filename, map filename paths),
              (FileProperty_fullpath, map fullpath paths)])"

section \<open>The Data operation (data.py)\<close>

text \<open>
  What \<open>json.loads\<close> returns: \<open>None\<close>, a bool, an int, a float, a string, a
  list or a dict. Floats are values of a type parameter; a dict is the list of its
  entries in order, its keys distinct.
\<close>

datatype 'f json =
    JNull
  | JBool bool
  | JInt int
  | JFloat 'f
  | JString string
  | JArray "'f json list"
  | JObject "(string \<times> 'f json) list"

text \<open>
  Modelled from the spec: the class \<open>RecordSet\<close> of
  \<open>structure_graph/nodes/record_set.py\<close>, a logical table with a name and optional
  inline literal data, the text of a JSON array of records.
\<close>

record record_set =
  record_set_name :: string
  data :: "string option"

text \<open>The labels of all records, each once, in the order in which they first appear.\<close>

fun unique_in_order :: "'a list \<Rightarrow> 'a list" where
  "unique_in_order [] = []"
| "unique_in_order (x # xs) = x # removeAll x (unique_in_order xs)"

definition is_JObject :: "'f json \<Rightarrow> bool" where
  "is_JObject j = (case j of JObject entries \<Rightarrow> True | _ \<Rightarrow> False)"

definition entries_of :: "'f json \<Rightarrow> (string \<times> 'f json) list" where
  "entries_of j = (case j of JObject entries \<Rightarrow> entries | _ \<Rightarrow> [])"

text \<open>
  \<open>pd.DataFrame.from_records(data)\<close>. For a list of dicts the columns are the keys
  of the dicts, each once, in the order of first appearance; row \<open>i\<close> holds, under
  each column, the value of dict \<open>i\<close> for that key, or the missing value
  (\<open>None\<close> here) when the dict has no such key. What pandas does with data of any
  other shape is left to the parameter \<open>other_shape\<close>.
\<close>

definition from_records ::
  "('f json \<Rightarrow> error + (string, 'f json option) dataframe) \<Rightarrow> 'f json \<Rightarrow>
   error + (string, 'f json option) dataframe" where
  "from_records other_shape j =
     (case j of
        JArray items \<Rightarrow>
          if list_all is_JObject items
          then let cols = unique_in_order (concat (map (\<lambda>item. map fst (entries_of item)) items))
               in Inr \<lparr>columns = cols,
                        rows = map (\<lambda>item. map (map_of (entries_of item)) cols) items\<rparr>
          else other_shape j
      | _ \<Rightarrow> other_shape j)"

text \<open>
  \<open>Data.__call__(self)\<close>: no operand. \<open>json.loads\<close> is a parameter; it raises
  \<open>TypeError\<close> on \<open>None\<close>, which the model writes out, and
  \<open>JSONDecodeError\<close> on text that is not JSON.
\<close>

definition Data_call ::
  "(string \<Rightarrow> error + 'f json) \<Rightarrow> ('f json \<Rightarrow> error + (string, 'f json option) dataframe) \<Rightarrow>
   record_set \<Rightarrow> error + (string, 'f json option) dataframe" where
  "Data_call json_loads other_shape node =
     (case data node of
        None \<Rightarrow> Inl TypeError
      | Some text \<Rightarrow>
          (case json_loads text of
             Inl e \<Rightarrow> Inl e
           | Inr j \<Rightarrow> from_records other_shape j))"

subsection \<open>A sample literal for concrete runs\<close>

text \<open>
  The literal of a record set of two users, and what \<open>json.loads\<close> returns for it;
  the sample loader knows no other text.
\<close>

definition users_json :: string where
  "users_json = ''[{\"name\": \"ann\", \"age\": 30}, {\"name\": \"bob\", \"email\": null}]''"

definition json_loads_sample :: "string \<Rightarrow> error + unit json" where
  "json_loads_sample s =
     (if s = users_json
      then Inr (JArray [JObject [(''name'', JString ''ann''), (''age'', JInt 30)],
                        JObject [(''name'', JString ''bob''), (''email'', JNull)]])
      else Inl JSONDecodeError)"

text \<open>The runs below load a list of dicts only; no other shape is read.\<close>

definition no_other_shape :: "unit json \<Rightarrow> error + (string, unit json option) dataframe" where
  "no_other_shape j = Inl TypeError"

section \<open>The data type of a Field (field.py)\<close>

text \<open>
  A \<open>Field\<close> node: the uid it has as a \<open>Node\<close> and the attributes of the
  class, but for \<open>references\<close> and \<open>source\<close>, which the resolution of the
  data type does not read. A node of the structure graph is a Field or a node of another
  class (a dataset, a distribution, a record set), of which only the uid is kept.
\<close>

record field =
  uid :: string
  name :: string
  description :: "string option"
  field_data_type :: "string option"
  has_sub_fields :: "bool option"

datatype node = Field field | Other_node string

text \<open>
  The directed graph of the nodes, as far as \<open>graph.predecessors(n)\<close> reads it: for
  a node of the graph its predecessors in the order of iteration, and \<open>None\<close> for a
  node that is not in the graph, where the library raises \<open>NetworkXError\<close>.
\<close>

type_synonym graph = "node \<Rightarrow> node list option"

text \<open>
  Modelled from the spec: the issue log and \<open>Node.add_error\<close> of
  \<open>structure_graph/base_node.py\<close>. The log accumulates the errors in order, each
  with the node that reported it; \<open>add_error\<close> appends and never removes.
\<close>

type_synonym issues = "(node \<times> string) list"

definition add_error :: "node \<Rightarrow> string \<Rightarrow> issues \<Rightarrow> issues" where
  "add_error self msg log = log @ [(self, msg)]"

text \<open>
  Modelled from the spec: the constant \<open>ML_COMMONS_DATA_TYPE\<close> of
  \<open>core/constants.py\<close>, the name of the data-type property, as the test
  \<open>recordset_missing_context_for_datatype\<close> of \<open>datasets_test.py\<close> expects it
  in the message.
\<close>

definition ML_COMMONS_DATA_TYPE :: string where
  "ML_COMMONS_DATA_TYPE = ''http://mlcommons.org/schema/dataType''"

definition no_data_type_message :: string where
  "no_data_type_message =
     ''The field does not specify any '' @ ML_COMMONS_DATA_TYPE @
     '', neither does any of its predecessor.''"

text \<open>
  The property \<open>Field.data_type\<close>. It calls itself on the parent; Python bounds the
  depth of the calls and raises \<open>RecursionError\<close> beyond it, which is the first
  equation: \<open>depth\<close> is the number of calls still allowed. The issue log is passed
  in and returned.
\<close>

fun data_type :: "graph \<Rightarrow> nat \<Rightarrow> field \<Rightarrow> issues \<Rightarrow> (error + string option) \<times> issues" where
  "data_type g 0 self log = (Inl RecursionError, log)"
| "data_type g (Suc depth) self log =
     (case field_data_type self of
        Some t \<Rightarrow> (Inr (Some t), log)
      | None \<Rightarrow>
          (case g (Field self) of
             None \<Rightarrow> (Inl NetworkXError, log)
           | Some [] \<Rightarrow> (Inr None, add_error (Field self) no_data_type_message log)
           | Some (Other_node u # ps) \<Rightarrow>
               (Inr None, add_error (Field self) no_data_type_message log)
           | Some (Field parent # ps) \<Rightarrow> data_type g depth parent log))"

subsection \<open>The walk along the predecessors\<close>

text \<open>
  The walk of the resolution: \<open>walk g f k a\<close> when \<open>a\<close> is reached from the
  field \<open>f\<close> in \<open>k\<close> steps, each step leaving a Field that declares no data type
  for the first predecessor the graph lists for it, a Field.
\<close>

inductive walk :: "graph \<Rightarrow> field \<Rightarrow> nat \<Rightarrow> field \<Rightarrow> bool" where
  here: "walk g f 0 f"
| step: "walk g f k h \<Longrightarrow> field_data_type h = None \<Longrightarrow> g (Field h) = Some (Field p # ps) \<Longrightarrow>
         walk g f (Suc k) p"

subsection \<open>A sample graph for concrete runs\<close>

text \<open>
  A record set \<open>rs\<close> with the field \<open>rs/date\<close> of type \<open>Date\<close>, its sub-field
  \<open>rs/date/year\<close> without a type, and the field \<open>rs/id\<close> without a type.
\<close>

definition date_field :: field where
  "date_field = \<lparr>uid = ''rs/date'', name = ''date'', description = None,
                 field_data_type = Some ''https://schema.org/Date'', has_sub_fields = Some True\<rparr>"

definition year_field :: field where
  "year_field = \<lparr>uid = ''rs/date/year'', name = ''year'', description = None,
                 field_data_type = None, has_sub_fields = None\<rparr>"

definition id_field :: field where
  "id_field = \<lparr>uid = ''rs/id'', name = ''id'', description = None,
               field_data_type = None, has_sub_fields = None\<rparr>"

definition sample_graph :: graph where
  "sample_graph n =
     (if n = Other_node ''rs'' then Some []
      else if n = Field date_field then Some [Other_node ''rs'']
      else if n = Field year_field then Some [Field date_field]
      else if n = Field id_field then Some [Other_node ''rs'']
      else None)"

subsection \<open>The resolution as the spec words it\<close>

text \<open>
  The spec resolves the data type by walking predecessor Field nodes and taking the
  nearest ancestor's declared type. This second definition follows those words: it looks
  at all predecessors that are Fields, level by level, and returns the declared type of
  the first Field it finds with one, at the least distance. It is compared with
  \<open>data_type\<close>, which follows the code.
\<close>

definition field_predecessors :: "graph \<Rightarrow> field \<Rightarrow> field list" where
  "field_predecessors g f =
     (case g (Field f) of
        None \<Rightarrow> []
      | Some ps \<Rightarrow> concat (map (\<lambda>n. case n of Field p \<Rightarrow> [p] | Other_node u \<Rightarrow> []) ps))"

fun spec_nearest_declared_type :: "graph \<Rightarrow> nat \<Rightarrow> field list \<Rightarrow> string option" where
  "spec_nearest_declared_type g 0 level = None"
| "spec_nearest_declared_type g (Suc n) level =
     (case List.find (\<lambda>p. field_data_type p \<noteq> None) level of
        Some p \<Rightarrow> field_data_type p
      | None \<Rightarrow>
          if level = [] then None
          else spec_nearest_declared_type g n (concat (map (field_predecessors g) level)))"

text \<open>
  A graph in which the sub-field \<open>rs/date/year\<close> has two predecessors: the
  distribution it reads from, listed first, and its parent field \<open>rs/date\<close>.
\<close>

definition two_predecessors_graph :: graph where
  "two_predecessors_graph n =
     (if n = Other_node ''a-csv-table'' then Some []
      else if n = Field date_field then Some [Other_node ''a-csv-table'']
      else if n = Field year_field then Some [Other_node ''a-csv-table'', Field date_field]
      else None)"

section \<open>Properties of the transforms\<close>

lemma first_group_Some_iff:
  "first_group groups = Some g \<longleftrightarrow>
     (\<exists>i < length groups. groups ! i = Some g \<and> (\<forall>j < i. groups ! j = None))"
proof (induction groups rule: first_group.induct)
  case 1
  then show ?case by simp
next
  case (2 groups)
  show ?case
  proof
    assume "first_group (None # groups) = Some g"
    then obtain i where i: "i < length groups" "groups ! i = Some g" "\<forall>j < i. groups ! j = None"
      using 2 by auto
    have "\<forall>j < Suc i. (None # groups) ! j = None"
      using i(3) by (auto simp: nth_Cons split: nat.splits)
    with i(1,2) show "\<exists>i < length (None # groups). (None # groups) ! i = Some g \<and> (\<forall>j < i. (None # groups) ! j = None)"
      by (intro exI[of _ "Suc i"]) simp
  next
    assume "\<exists>i < length (None # groups). (None # groups) ! i = Some g \<and> (\<forall>j < i. (None # groups) ! j = None)"
    then obtain i where i: "i < length (None # groups)" "(None # groups) ! i = Some g"
      "\<forall>j < i. (None # groups) ! j = None"
      by blast
    from i(2) obtain k where k: "i = Suc k" by (cases i) auto
    have "\<forall>j < k. groups ! j = None"
    proof (intro allI impI)
      fix j assume "j < k"
      then have "Suc j < i" using k by simp
      with i(3) have "(None # groups) ! Suc j = None" by blast
      then show "groups ! j = None" by simp
    qed
    with i(1,2) k have "\<exists>i < length groups. groups ! i = Some g \<and> (\<forall>j < i. groups ! j = None)"
      by auto
    with 2 show "first_group (None # groups) = Some g" by simp
  qed
next
  case (3 g' groups)
  show ?case
  proof
    assume "first_group (Some g' # groups) = Some g"
    then have "g' = g" by simp
    then show "\<exists>i < length (Some g' # groups). (Some g' # groups) ! i = Some g \<and> (\<forall>j < i. (Some g' # groups) ! j = None)"
      by (intro exI[of _ 0]) simp
  next
    assume "\<exists>i < length (Some g' # groups). (Some g' # groups) ! i = Some g \<and> (\<forall>j < i. (Some g' # groups) ! j = None)"
    then obtain i where i: "(Some g' # groups) ! i = Some g" "\<forall>j < i. (Some g' # groups) ! j = None"
      by blast
    have "i = 0"
    proof (rule ccontr)
      assume "i \<noteq> 0"
      then have "(Some g' # groups) ! 0 = None" using i(2) by blast
      then show False by simp
    qed
    with i(1) show "first_group (Some g' # groups) = Some g" by simp
  qed
qed

lemma first_group_None_iff: "first_group groups = None \<longleftrightarrow> (\<forall>g \<in> set groups. g = None)"
  by (induction groups rule: first_group.induct) auto


lemma apply_transform_fn_no_match:
  assumes "regex t = Some r" and "re_compile r = Some p" and "p v = None"
  shows "apply_transform_fn re_compile (Str v) t = Inr (Str v)"
  using assms by (simp add: apply_transform_fn_def)

lemma apply_transform_fn_match:
  assumes "regex t = Some r" and "re_compile r = Some p" and "p v = Some gs"
  shows "apply_transform_fn re_compile (Str v) t =
           Inr (Str (case first_group gs of Some g \<Rightarrow> g | None \<Rightarrow> v))"
  using assms by (simp add: apply_transform_fn_def split: option.splits)

text \<open>
  C4 (as the code has it). When the pattern does not match, the value is returned
  unchanged. When it matches, the result is the first capture group that took part in
  the match (the first entry of \<open>groups()\<close> that is not \<open>None\<close>), whatever its
  contents, the empty string included; when the match has no such group (no group at
  all, or none that took part), the value is returned unchanged.
\<close>

theorem apply_transform_fn_regex:
  assumes "regex t = Some r" and "re_compile r = Some p"
  shows "(p v = None \<longrightarrow> apply_transform_fn re_compile (Str v) t = Inr (Str v)) \<and>
         (\<forall>gs. p v = Some gs \<longrightarrow>
            (\<forall>i g. i < length gs \<and> gs ! i = Some g \<and> (\<forall>j < i. gs ! j = None) \<longrightarrow>
               apply_transform_fn re_compile (Str v) t = Inr (Str g)) \<and>
            ((\<forall>x \<in> set gs. x = None) \<longrightarrow>
               apply_transform_fn re_compile (Str v) t = Inr (Str v)))"
proof (intro conjI allI impI)
  assume "p v = None"
  with assms show "apply_transform_fn re_compile (Str v) t = Inr (Str v)"
    by (rule apply_transform_fn_no_match)
next
  fix gs i g
  assume m: "p v = Some gs"
    and i: "i < length gs \<and> gs ! i = Some g \<and> (\<forall>j < i. gs ! j = None)"
  from i have "first_group gs = Some g"
    unfolding first_group_Some_iff by blast
  with assms m show "apply_transform_fn re_compile (Str v) t = Inr (Str g)"
    by (simp add: apply_transform_fn_def)
next
  fix gs
  assume m: "p v = Some gs" and "\<forall>x \<in> set gs. x = None"
  then have "first_group gs = None"
    by (simp add: first_group_None_iff)
  with assms m show "apply_transform_fn re_compile (Str v) t = Inr (Str v)"
    by (simp add: apply_transform_fn_def)
qed

lemma match_as_b_aab: "match_as_b ''aab'' = Some [Some ''aa'', Some ''b'']"
  by (simp add: match_as_b_def)

lemma match_as_b_c: "match_as_b ''c'' = None"
  by (simp add: match_as_b_def)

theorem apply_transform_fn_regex_witness:
  "re_fragment ''(a*)(b)'' = Some match_as_b \<and>
   match_as_b ''aab'' = Some [Some ''aa'', Some ''b''] \<and>
   apply_transform_fn re_fragment (Str ''aab'') \<lparr>regex = Some ''(a*)(b)''\<rparr> = Inr (Str ''aa'') \<and>
   match_as_b ''c'' = None \<and>
   apply_transform_fn re_fragment (Str ''c'') \<lparr>regex = Some ''(a*)(b)''\<rparr> = Inr (Str ''c'')"
proof -
  let ?t = "\<lparr>regex = Some ''(a*)(b)''\<rparr>"
  have r: "regex ?t = Some ''(a*)(b)''" by simp
  have c: "re_fragment ''(a*)(b)'' = Some match_as_b" by (simp add: re_fragment_def)
  note th = apply_transform_fn_regex[where re_compile = re_fragment and p = match_as_b
      and t = ?t and r = "''(a*)(b)''", OF r c]
  have "apply_transform_fn re_fragment (Str ''aab'') ?t = Inr (Str ''aa'')"
    using th[of "''aab''"] match_as_b_aab
    by (auto dest!: spec[of _ "[Some ''aa'', Some ''b'']"] spec[of _ "0::nat"])
  moreover have "apply_transform_fn re_fragment (Str ''c'') ?t = Inr (Str ''c'')"
    using th[of "''c''"] match_as_b_c by simp
  ultimately show ?thesis using c match_as_b_aab match_as_b_c by simp
qed

text \<open>
  C4, as stated, fails: the pattern \<open>(a*)(b)\<close> matches the value \<open>b\<close> with the
  groups \<open>('', 'b')\<close>. The first non-empty capture group is \<open>b\<close>; the code
  returns the first group that is not \<open>None\<close>, the empty string.
\<close>

theorem apply_transform_fn_empty_group_counterexample:
  "re_fragment ''(a*)(b)'' = Some match_as_b \<and>
   match_as_b ''b'' = Some [Some '''', Some ''b''] \<and>
   spec_first_nonempty_group [Some '''', Some ''b''] = Some ''b'' \<and>
   apply_transform_fn re_fragment (Str ''b'') \<lparr>regex = Some ''(a*)(b)''\<rparr> = Inr (Str '''')"
  by (simp add: re_fragment_def match_as_b_def apply_transform_fn_def)

text \<open>
  C5 (as the code has it). Let the first application of a regex transform to \<open>v\<close>
  return \<open>w\<close>. When the pattern no longer matches \<open>w\<close>, the second application
  returns \<open>w\<close>: twice is the same as once. In general the second application
  returns \<open>w\<close> exactly when the pattern does not match \<open>w\<close>, or matches it with
  no group that took part, or with \<open>w\<close> itself as the first group that took part.
\<close>

theorem apply_transform_fn_twice:
  assumes "regex t = Some r" and "re_compile r = Some p"
    and "apply_transform_fn re_compile (Str v) t = Inr (Str w)"
  shows "(p w = None \<longrightarrow> apply_transform_fn re_compile (Str w) t = Inr (Str w)) \<and>
         (apply_transform_fn re_compile (Str w) t = Inr (Str w) \<longleftrightarrow>
            (p w = None \<or> (\<exists>gs. p w = Some gs \<and> first_group gs \<in> {None, Some w})))"
  using assms(1,2) by (auto simp: apply_transform_fn_def split: option.splits)

lemma match_a_rest_abc: "match_a_rest ''abc'' = Some [Some ''bc'']"
  by (simp add: match_a_rest_def)

lemma match_a_rest_bc: "match_a_rest ''bc'' = None"
  by (simp add: match_a_rest_def)

theorem apply_transform_fn_twice_witness:
  "apply_transform_fn re_fragment (Str ''abc'') \<lparr>regex = Some ''a(.*)''\<rparr> = Inr (Str ''bc'') \<and>
   match_a_rest ''bc'' = None \<and>
   apply_transform_fn re_fragment (Str ''bc'') \<lparr>regex = Some ''a(.*)''\<rparr> = Inr (Str ''bc'')"
proof -
  let ?t = "\<lparr>regex = Some ''a(.*)''\<rparr>"
  have r: "regex ?t = Some ''a(.*)''" by simp
  have c: "re_fragment ''a(.*)'' = Some match_a_rest" by (simp add: re_fragment_def)
  have once: "apply_transform_fn re_fragment (Str ''abc'') ?t = Inr (Str ''bc'')"
    using c match_a_rest_abc by (simp add: apply_transform_fn_def)
  have "apply_transform_fn re_fragment (Str ''bc'') ?t = Inr (Str ''bc'')"
    using apply_transform_fn_twice[where re_compile = re_fragment and p = match_a_rest
        and t = ?t and r = "''a(.*)''" and v = "''abc''" and w = "''bc''", OF r c once]
      match_a_rest_bc
    by blast
  with once match_a_rest_bc show ?thesis by simp
qed

text \<open>
  C5, as stated, fails: with the pattern \<open>a(.*)\<close> the first application to
  \<open>aab\<close> strips the matched prefix \<open>a\<close> and returns \<open>ab\<close>; the second
  application strips again and returns \<open>b\<close>.
\<close>

theorem apply_transform_fn_twice_counterexample:
  "apply_transform_fn re_fragment (Str ''aab'') \<lparr>regex = Some ''a(.*)''\<rparr> = Inr (Str ''ab'') \<and>
   ''aab'' = ''a'' @ ''ab'' \<and>
   apply_transform_fn re_fragment (Str ''ab'') \<lparr>regex = Some ''a(.*)''\<rparr> = Inr (Str ''b'') \<and>
   apply_transforms_loop re_fragment (Str ''aab'')
     [\<lparr>regex = Some ''a(.*)''\<rparr>, \<lparr>regex = Some ''a(.*)''\<rparr>] = Inr (Str ''b'') \<and>
   apply_transforms_loop re_fragment (Str ''aab'') [\<lparr>regex = Some ''a(.*)''\<rparr>] = Inr (Str ''ab'')"
  by (simp add: re_fragment_def match_a_rest_def apply_transform_fn_def)

text \<open>
  C10. With no source, or with a source whose list of transforms is empty, the pipeline
  returns the value unchanged, whatever the value; a single transform whose regex is
  absent returns the value unchanged.
\<close>

theorem apply_transforms_fn_nothing_to_apply:
  "apply_transforms_fn re_compile value None = Inr value \<and>
   (apply_transform src = [] \<longrightarrow> apply_transforms_fn re_compile value (Some src) = Inr value) \<and>
   (regex t = None \<longrightarrow> apply_transform_fn re_compile value t = Inr value)"
  by (simp add: apply_transforms_fn_def apply_transform_fn_def)

theorem apply_transforms_fn_nothing_to_apply_witness:
  "apply_transforms_fn re_fragment (Str ''abc'') None = Inr (Str ''abc'') \<and>
   apply_transforms_fn re_fragment (Str ''abc'')
     (Some \<lparr>reference = Some [''node'', ''col''], apply_transform = []\<rparr>) = Inr (Str ''abc'') \<and>
   apply_transform_fn re_fragment (Str ''abc'') \<lparr>regex = None\<rparr> = Inr (Str ''abc'')"
  using apply_transforms_fn_nothing_to_apply[of re_fragment "Str ''abc''"
      "\<lparr>reference = Some [''node'', ''col''], apply_transform = []\<rparr>" "\<lparr>regex = None\<rparr>"]
  by simp

section \<open>Properties of the Join operation\<close>

lemma Join_call_two_operands:
  assumes "reference l = Some [ln, lk]" and "reference r = Some rref" and "2 \<le> length rref"
    and "operand_roles lk (rref ! 1) a b = (dl, dr)"
  shows "Join_call re_compile repr_columns node_uid [a, b] (Some l) (Some r) =
     (if lk \<notin> set (columns dl)
      then Inl (AssertionError (column_does_not_exist lk ln (repr_columns (columns dl))))
      else if rref ! 1 \<notin> set (columns dr)
      then Inl (AssertionError (column_does_not_exist (rref ! 1) (rref ! 0)
                  (repr_columns (columns dr))))
      else (case transform_series (\<lambda>value. apply_transforms_fn re_compile value (Some l))
                   (get_column dl lk) of
              Inl e \<Rightarrow> Inl e
            | Inr values \<Rightarrow> Inr (merge (set_column dl lk values) dr lk (rref ! 1))))"
  using assms by (simp add: Join_call_def cong: sum.case_cong)

text \<open>
  C2 (as the code has it). A call with no operand or with more than two operands fails
  with \<open>NotImplementedError\<close>; a call with exactly one operand does not fail: it
  returns that operand as it is.
\<close>

theorem Join_call_operand_count:
  "(length args = 0 \<or> 2 < length args \<longrightarrow>
      Join_call re_compile repr_columns node_uid args left right =
        Inl (NotImplementedError
              (''Unsupported: Trying to joing '' @ str_nat (length args) @ '' pd.DataFrames.''))) \<and>
   Join_call re_compile repr_columns node_uid [a] left right = Inr a"
proof (intro conjI impI)
  assume n: "length args = 0 \<or> 2 < length args"
  show "Join_call re_compile repr_columns node_uid args left right =
        Inl (NotImplementedError
              (''Unsupported: Trying to joing '' @ str_nat (length args) @ '' pd.DataFrames.''))"
  proof (cases args)
    case Nil
    then show ?thesis by (simp add: Join_call_def)
  next
    case (Cons x xs)
    with n obtain y z zs where "args = x # y # z # zs"
      by (cases xs; cases "tl xs") auto
    then show ?thesis by (simp add: Join_call_def)
  qed
next
  show "Join_call re_compile repr_columns node_uid [a] left right = Inr a"
    by (simp add: Join_call_def)
qed

theorem Join_call_operand_count_witness:
  "Join_call re_fragment repr_columns_plain ''rs'' [] None None =
     Inl (NotImplementedError ''Unsupported: Trying to joing 0 pd.DataFrames.'') \<and>
   Join_call re_fragment repr_columns_plain ''rs'' [files_table, labels_table, files_table]
       (Some files_source) (Some labels_source) =
     Inl (NotImplementedError ''Unsupported: Trying to joing 3 pd.DataFrames.'')"
proof -
  have "str_nat 0 = ''0''" "str_nat 3 = ''3''" by simp_all
  then show ?thesis
    using Join_call_operand_count[of "[]" re_fragment repr_columns_plain "''rs''" None None]
      Join_call_operand_count[of "[files_table, labels_table, files_table]" re_fragment
        repr_columns_plain "''rs''" "Some files_source" "Some labels_source"]
    by simp
qed

text \<open>
  C2, as stated, fails for a call with one operand, which is fewer than two: the call
  returns the operand, with no error.
\<close>

theorem Join_call_one_operand_counterexample:
  "length [files_table] < 2 \<and>
   Join_call re_fragment repr_columns_plain ''rs'' [files_table] None None = Inr files_table"
  by (simp add: Join_call_def)

lemma sublist_quoted_key:
  "sublist (''\"'' @ key @ ''\"'') (column_does_not_exist key node_name existing)"
proof -
  have "column_does_not_exist key node_name existing =
        ''Column '' @ (''\"'' @ key @ ''\"'') @
        ('' does not exist in node \"'' @ node_name @ ''\". Existing columns: '' @ existing)"
    by (simp add: column_does_not_exist_def)
  then show ?thesis by (simp only: sublist_appendI)
qed

lemma sublist_quoted_node:
  "sublist (''\"'' @ node_name @ ''\"'') (column_does_not_exist key node_name existing)"
proof -
  have "column_does_not_exist key node_name existing =
        (''Column \"'' @ key @ ''\" does not exist in node '') @ (''\"'' @ node_name @ ''\"'') @
        (''. Existing columns: '' @ existing)"
    by (simp add: column_does_not_exist_def)
  then show ?thesis by (simp only: sublist_appendI)
qed

text \<open>
  C8. A two-operand call whose references are in place (a left reference of node and
  column, a right reference of at least node and column) settles the roles of the
  operands and then checks the keys. When the left key is not a column of the left
  operand, the call fails with an assertion error whose message quotes the left key and
  the node of the left reference; when the left key is there and the right key is not a
  column of the right operand, the message quotes the right key and the node of the
  right reference.
\<close>

theorem Join_call_missing_key_message:
  assumes "reference l = Some [left_node, left_key]"
    and "reference r = Some right_reference" and "2 \<le> length right_reference"
    and "right_node = right_reference ! 0" and "right_key = right_reference ! 1"
    and "operand_roles left_key right_key a b = (df_left, df_right)"
  shows "(left_key \<notin> set (columns df_left) \<longrightarrow>
            (\<exists>msg. Join_call re_compile repr_columns node_uid [a, b] (Some l) (Some r) =
                     Inl (AssertionError msg) \<and>
                   msg = column_does_not_exist left_key left_node (repr_columns (columns df_left)) \<and>
                   sublist (''\"'' @ left_key @ ''\"'') msg \<and>
                   sublist (''\"'' @ left_node @ ''\"'') msg)) \<and>
         (left_key \<in> set (columns df_left) \<and> right_key \<notin> set (columns df_right) \<longrightarrow>
            (\<exists>msg. Join_call re_compile repr_columns node_uid [a, b] (Some l) (Some r) =
                     Inl (AssertionError msg) \<and>
                   msg = column_does_not_exist right_key right_node (repr_columns (columns df_right)) \<and>
                   sublist (''\"'' @ right_key @ ''\"'') msg \<and>
                   sublist (''\"'' @ right_node @ ''\"'') msg))"
proof -
  note two = Join_call_two_operands[OF assms(1,2,3) assms(6)[unfolded assms(5)],
      of re_compile repr_columns node_uid]
  show ?thesis
  proof (intro conjI impI)
    assume "left_key \<notin> set (columns df_left)"
    then have "Join_call re_compile repr_columns node_uid [a, b] (Some l) (Some r) =
        Inl (AssertionError (column_does_not_exist left_key left_node
               (repr_columns (columns df_left))))"
      using two by simp
    then show "\<exists>msg. Join_call re_compile repr_columns node_uid [a, b] (Some l) (Some r) =
                     Inl (AssertionError msg) \<and>
                   msg = column_does_not_exist left_key left_node (repr_columns (columns df_left)) \<and>
                   sublist (''\"'' @ left_key @ ''\"'') msg \<and>
                   sublist (''\"'' @ left_node @ ''\"'') msg"
      using sublist_quoted_key sublist_quoted_node by blast
  next
    assume "left_key \<in> set (columns df_left) \<and> right_key \<notin> set (columns df_right)"
    then have "Join_call re_compile repr_columns node_uid [a, b] (Some l) (Some r) =
        Inl (AssertionError (column_does_not_exist right_key right_node
               (repr_columns (columns df_right))))"
      using two assms(4,5) by simp
    then show "\<exists>msg. Join_call re_compile repr_columns node_uid [a, b] (Some l) (Some r) =
                     Inl (AssertionError msg) \<and>
                   msg = column_does_not_exist right_key right_node (repr_columns (columns df_right)) \<and>
                   sublist (''\"'' @ right_key @ ''\"'') msg \<and>
                   sublist (''\"'' @ right_node @ ''\"'') msg"
      using sublist_quoted_key sublist_quoted_node by blast
  qed
qed

theorem Join_call_missing_key_message_witness:
  "Join_call re_fragment repr_columns_plain ''rs'' [orders_table, labels_table]
       (Some files_source) (Some labels_source) =
     Inl (AssertionError (column_does_not_exist ''name'' ''files''
            (repr_columns_plain [''key'', ''label'']))) \<and>
   sublist ''\"name\"'' (column_does_not_exist ''name'' ''files''
            (repr_columns_plain [''key'', ''label''])) \<and>
   sublist ''\"files\"'' (column_does_not_exist ''name'' ''files''
            (repr_columns_plain [''key'', ''label''])) \<and>
   Join_call re_fragment repr_columns_plain ''rs'' [orders_table, files_table]
       (Some files_source) (Some labels_source) =
     Inl (AssertionError (column_does_not_exist ''key'' ''labels''
            (repr_columns_plain [''id'', ''item''])))"
proof -
  have l: "reference files_source = Some [''files'', ''name'']"
    by (simp add: files_source_def)
  have r: "reference labels_source = Some [''labels'', ''key'']"
    by (simp add: labels_source_def)
  have n: "2 \<le> length [''labels'', ''key'']" by simp
  have rn: "''labels'' = [''labels'', ''key''] ! 0" and rk: "''key'' = [''labels'', ''key''] ! 1"
    by simp_all
  have roles1: "operand_roles ''name'' ''key'' orders_table labels_table = (labels_table, orders_table)"
    by (simp add: operand_roles_def orders_table_def labels_table_def)
  have roles2: "operand_roles ''name'' ''key'' orders_table files_table = (files_table, orders_table)"
    by (simp add: operand_roles_def orders_table_def files_table_def)
  have c1: "''name'' \<notin> set (columns labels_table)"
    by (simp add: labels_table_def)
  have c2: "''name'' \<in> set (columns files_table) \<and> ''key'' \<notin> set (columns orders_table)"
    by (simp add: files_table_def orders_table_def)
  from Join_call_missing_key_message[OF l r n rn rk roles1, of re_fragment repr_columns_plain "''rs''"] c1
  have first: "Join_call re_fragment repr_columns_plain ''rs'' [orders_table, labels_table]
       (Some files_source) (Some labels_source) =
     Inl (AssertionError (column_does_not_exist ''name'' ''files''
            (repr_columns_plain (columns labels_table)))) \<and>
     sublist (''\"'' @ ''name'' @ ''\"'') (column_does_not_exist ''name'' ''files''
            (repr_columns_plain (columns labels_table))) \<and>
     sublist (''\"'' @ ''files'' @ ''\"'') (column_does_not_exist ''name'' ''files''
            (repr_columns_plain (columns labels_table)))"
    by blast
  from Join_call_missing_key_message[OF l r n rn rk roles2, of re_fragment repr_columns_plain "''rs''"] c2
  have second: "Join_call re_fragment repr_columns_plain ''rs'' [orders_table, files_table]
       (Some files_source) (Some labels_source) =
     Inl (AssertionError (column_does_not_exist ''key'' ''labels''
            (repr_columns_plain (columns orders_table))))"
    by blast
  have cols: "columns labels_table = [''key'', ''label'']" "columns orders_table = [''id'', ''item'']"
    by (simp_all add: labels_table_def orders_table_def)
  from first second show ?thesis
    unfolding cols by simp
qed

lemma operand_roles_told_apart:
  assumes "left_key \<in> set (columns a)" and "right_key \<in> set (columns b)"
    and "left_key \<notin> set (columns b) \<or> right_key \<notin> set (columns a)"
  shows "operand_roles left_key right_key a b = (a, b)"
    and "operand_roles left_key right_key b a = (a, b)"
  using assms by (auto simp: operand_roles_def)

lemma Join_call_roles:
  assumes "operand_roles (left_reference ! 1) (right_reference ! 1) a b =
           operand_roles (left_reference ! 1) (right_reference ! 1) a' b'"
    and "reference l = Some left_reference" and "reference r = Some right_reference"
  shows "Join_call re_compile repr_columns node_uid [a, b] (Some l) (Some r) =
         Join_call re_compile repr_columns node_uid [a', b'] (Some l) (Some r)"
  using assms by (simp add: Join_call_def cong: sum.case_cong)

text \<open>
  C1 (as the code has it). Let the first operand have the left key among its columns and
  the second the right key. When the columns tell the two operands apart (the left key
  is not a column of the second operand, or the right key is not a column of the first),
  both orders of the operands settle the same roles, the first operand as left and the
  second as right, and the call returns the same result, or fails in the same way, in
  either order.
\<close>

theorem Join_call_order_independent:
  assumes "reference l = Some left_reference" and "reference r = Some right_reference"
    and "left_key = left_reference ! 1" and "right_key = right_reference ! 1"
    and "left_key \<in> set (columns a)" and "right_key \<in> set (columns b)"
    and "left_key \<notin> set (columns b) \<or> right_key \<notin> set (columns a)"
  shows "operand_roles left_key right_key a b = (a, b) \<and>
         operand_roles left_key right_key b a = (a, b) \<and>
         Join_call re_compile repr_columns node_uid [b, a] (Some l) (Some r) =
         Join_call re_compile repr_columns node_uid [a, b] (Some l) (Some r)"
proof -
  have roles: "operand_roles left_key right_key a b = (a, b)"
    "operand_roles left_key right_key b a = (a, b)"
    using operand_roles_told_apart[OF assms(5,6,7)] by simp_all
  then have "operand_roles (left_reference ! 1) (right_reference ! 1) b a =
             operand_roles (left_reference ! 1) (right_reference ! 1) a b"
    using assms(3,4) by simp
  from Join_call_roles[OF this assms(1,2)] roles show ?thesis by simp
qed

theorem Join_call_order_independent_witness:
  "Join_call re_fragment repr_columns_plain ''rs'' [labels_table, files_table]
       (Some files_source) (Some labels_source) =
   Join_call re_fragment repr_columns_plain ''rs'' [files_table, labels_table]
       (Some files_source) (Some labels_source) \<and>
   Join_call re_fragment repr_columns_plain ''rs'' [files_table, labels_table]
       (Some files_source) (Some labels_source) =
     Inr \<lparr>columns = [''name'', ''size'', ''key'', ''label''],
          rows = [[Str ''1'', Str ''10'', Str ''1'', Str ''cat''],
                  [Str ''2'', Str ''20'', NaN, NaN]]\<rparr>"
proof -
  have l: "reference files_source = Some [''files'', ''name'']"
    by (simp add: files_source_def)
  have r: "reference labels_source = Some [''labels'', ''key'']"
    by (simp add: labels_source_def)
  have k: "''name'' = [''files'', ''name''] ! 1" "''key'' = [''labels'', ''key''] ! 1"
    by simp_all
  have c: "''name'' \<in> set (columns files_table)" "''key'' \<in> set (columns labels_table)"
    "''name'' \<notin> set (columns labels_table) \<or> ''key'' \<notin> set (columns files_table)"
    by (simp_all add: files_table_def labels_table_def)
  have run: "Join_call re_fragment repr_columns_plain ''rs'' [files_table, labels_table]
       (Some files_source) (Some labels_source) =
     Inr \<lparr>columns = [''name'', ''size'', ''key'', ''label''],
          rows = [[Str ''1'', Str ''10'', Str ''1'', Str ''cat''],
                  [Str ''2'', Str ''20'', NaN, NaN]]\<rparr>"
    by (simp add: Join_call_def files_table_def labels_table_def files_source_def
        labels_source_def operand_roles_def get_column_def set_column_def cell_at_def
        apply_transforms_fn_def apply_transform_fn_def re_fragment_def match_a_rest_def
        merge_def right_part_def)
  from Join_call_order_independent[OF l r k c, of re_fragment repr_columns_plain "''rs''"] run
  show ?thesis by simp
qed

text \<open>
  C1, as stated, fails when both operands have both keys among their columns: here both
  tables have the column \<open>id\<close>, the left key and the right key. Neither order swaps
  the operands, and the two results differ.
\<close>

theorem Join_call_order_counterexample:
  "''id'' \<in> set (columns orders_table) \<and> ''id'' \<in> set (columns customers_table) \<and>
   Join_call re_fragment repr_columns_plain ''rs'' [orders_table, customers_table]
       (Some orders_source) (Some customers_source) =
     Inr \<lparr>columns = [''id'', ''item'', ''name''], rows = [[Str ''1'', Str ''pen'', NaN]]\<rparr> \<and>
   Join_call re_fragment repr_columns_plain ''rs'' [customers_table, orders_table]
       (Some orders_source) (Some customers_source) =
     Inr \<lparr>columns = [''id'', ''name'', ''item''], rows = [[Str ''2'', Str ''Bob'', NaN]]\<rparr> \<and>
   Join_call re_fragment repr_columns_plain ''rs'' [customers_table, orders_table]
       (Some orders_source) (Some customers_source) \<noteq>
   Join_call re_fragment repr_columns_plain ''rs'' [orders_table, customers_table]
       (Some orders_source) (Some customers_source)"
  by (simp add: Join_call_def orders_table_def customers_table_def orders_source_def
      customers_source_def operand_roles_def get_column_def set_column_def cell_at_def
      apply_transforms_fn_def merge_def right_part_def)

lemma transform_series_Inr:
  "transform_series f xs = Inr ys \<Longrightarrow>
     length ys = length xs \<and> (\<forall>i < length xs. f (xs ! i) = Inr (ys ! i))"
proof (induction xs arbitrary: ys)
  case Nil
  then show ?case by simp
next
  case (Cons x xs)
  from Cons.prems obtain y ys' where y: "f x = Inr y"
    and ys': "transform_series f xs = Inr ys'" and ys: "ys = y # ys'"
    by (auto split: sum.splits)
  from Cons.IH[OF ys'] have "length ys' = length xs"
    and "\<forall>i < length xs. f (xs ! i) = Inr (ys' ! i)"
    by simp_all
  with y ys show ?case
    by (auto simp: nth_Cons split: nat.splits)
qed

lemma rows_merge:
  "rows (merge df_left df_right left_on right_on) =
     concat (map (\<lambda>l.
        let matches = filter (\<lambda>m. cell_at (columns df_right) m right_on =
                                  cell_at (columns df_left) l left_on) (rows df_right)
        in if matches = []
           then [l @ replicate (length (right_part left_on right_on
                   (index_of (columns df_right) right_on) (columns df_right))) NaN]
           else map (\<lambda>m. l @ right_part left_on right_on
                   (index_of (columns df_right) right_on) m) matches)
       (rows df_left))"
  by (simp add: merge_def Let_def)

lemma merge_keeps_left_rows:
  assumes "row \<in> set (rows df_left)"
  shows "\<exists>out \<in> set (rows (merge df_left df_right left_on right_on)). take (length row) out = row"
proof -
  let ?matches = "filter (\<lambda>m. cell_at (columns df_right) m right_on =
                             cell_at (columns df_left) row left_on) (rows df_right)"
  let ?k = "index_of (columns df_right) right_on"
  show ?thesis
  proof (cases "?matches = []")
    case True
    let ?out = "row @ replicate (length (right_part left_on right_on ?k (columns df_right))) NaN"
    have "?out \<in> set (rows (merge df_left df_right left_on right_on))"
      unfolding rows_merge using assms True by (auto simp: Let_def intro!: bexI[of _ row])
    then show ?thesis by (intro bexI[of _ ?out]) simp_all
  next
    case False
    then obtain m where m: "m \<in> set ?matches" by (cases ?matches) auto
    let ?out = "row @ right_part left_on right_on ?k m"
    have "?out \<in> set (rows (merge df_left df_right left_on right_on))"
      unfolding rows_merge using assms False m
      by (auto simp: Let_def intro!: bexI[of _ row])
    then show ?thesis by (intro bexI[of _ ?out]) simp_all
  qed
qed

lemma merge_rows_origin:
  assumes "out \<in> set (rows (merge df_left df_right left_on right_on))"
  shows "\<exists>row \<in> set (rows df_left).
           (\<exists>m \<in> set (rows df_right).
              cell_at (columns df_right) m right_on = cell_at (columns df_left) row left_on \<and>
              out = row @ right_part left_on right_on (index_of (columns df_right) right_on) m) \<or>
           ((\<forall>m \<in> set (rows df_right).
              cell_at (columns df_right) m right_on \<noteq> cell_at (columns df_left) row left_on) \<and>
            out = row @ replicate (length (right_part left_on right_on
                    (index_of (columns df_right) right_on) (columns df_right))) NaN)"
proof -
  from assms obtain row where row: "row \<in> set (rows df_left)"
    and out: "out \<in> set (let matches = filter (\<lambda>m. cell_at (columns df_right) m right_on =
                                  cell_at (columns df_left) row left_on) (rows df_right)
        in if matches = []
           then [row @ replicate (length (right_part left_on right_on
                   (index_of (columns df_right) right_on) (columns df_right))) NaN]
           else map (\<lambda>m. row @ right_part left_on right_on
                   (index_of (columns df_right) right_on) m) matches)"
    unfolding rows_merge by auto
  show ?thesis
  proof (cases "filter (\<lambda>m. cell_at (columns df_right) m right_on =
                                  cell_at (columns df_left) row left_on) (rows df_right) = []")
    case True
    then have "\<forall>m \<in> set (rows df_right).
              cell_at (columns df_right) m right_on \<noteq> cell_at (columns df_left) row left_on"
      by (simp add: filter_empty_conv)
    moreover from out True have "out = row @ replicate (length (right_part left_on right_on
                    (index_of (columns df_right) right_on) (columns df_right))) NaN"
      by (simp add: Let_def)
    ultimately show ?thesis using row by blast
  next
    case False
    with out obtain m where "m \<in> set (rows df_right)"
      "cell_at (columns df_right) m right_on = cell_at (columns df_left) row left_on"
      "out = row @ right_part left_on right_on (index_of (columns df_right) right_on) m"
      by (auto simp: Let_def)
    then show ?thesis using row by blast
  qed
qed

text \<open>
  C3. Take a two-operand call whose references are in place, whose keys are columns of
  the operands once the roles are settled, and whose left key column is transformed
  without an exception. The call returns the left outer merge, on the left key and the
  right key, of the left operand with its key column transformed and the right operand.
  The key column is transformed value by value with the transforms of the left source.
  Every row of the left table, as transformed, starts a row of the result; and every row
  of the result is a row of the left table followed either by (the right part of) a row
  of the right table with an equal key, or, when no row of the right table has that key,
  by missing values only.
\<close>

theorem Join_call_left_outer_merge:
  assumes "reference l = Some [left_node, left_key]"
    and "reference r = Some right_reference" and "2 \<le> length right_reference"
    and "right_key = right_reference ! 1"
    and "operand_roles left_key right_key a b = (df_left, df_right)"
    and "left_key \<in> set (columns df_left)" and "right_key \<in> set (columns df_right)"
    and "transform_series (\<lambda>value. apply_transforms_fn re_compile value (Some l))
           (get_column df_left left_key) = Inr values"
    and "transformed = set_column df_left left_key values"
    and "result = merge transformed df_right left_key right_key"
  shows "Join_call re_compile repr_columns node_uid [a, b] (Some l) (Some r) = Inr result \<and>
         length values = length (rows df_left) \<and>
         (\<forall>i < length values.
            apply_transforms_fn re_compile (get_column df_left left_key ! i) (Some l) =
              Inr (values ! i)) \<and>
         (\<forall>row \<in> set (rows transformed). \<exists>out \<in> set (rows result). take (length row) out = row) \<and>
         (\<forall>out \<in> set (rows result). \<exists>row \<in> set (rows transformed).
            (\<exists>m \<in> set (rows df_right).
               cell_at (columns df_right) m right_key = cell_at (columns transformed) row left_key \<and>
               out = row @ right_part left_key right_key (index_of (columns df_right) right_key) m) \<or>
            ((\<forall>m \<in> set (rows df_right).
               cell_at (columns df_right) m right_key \<noteq> cell_at (columns transformed) row left_key) \<and>
             out = row @ replicate (length (right_part left_key right_key
                     (index_of (columns df_right) right_key) (columns df_right))) NaN))"
proof (intro conjI)
  show "Join_call re_compile repr_columns node_uid [a, b] (Some l) (Some r) = Inr result"
    using Join_call_two_operands[OF assms(1,2,3) assms(5)[unfolded assms(4)],
        of re_compile repr_columns node_uid] assms(4,6,7,8,9,10)
    by simp
next
  from transform_series_Inr[OF assms(8)]
  show "length values = length (rows df_left)"
    and "\<forall>i < length values.
            apply_transforms_fn re_compile (get_column df_left left_key ! i) (Some l) =
              Inr (values ! i)"
    by (simp_all add: get_column_def)
next
  show "\<forall>row \<in> set (rows transformed). \<exists>out \<in> set (rows result). take (length row) out = row"
    unfolding assms(10) using merge_keeps_left_rows by blast
next
  show "\<forall>out \<in> set (rows result). \<exists>row \<in> set (rows transformed).
            (\<exists>m \<in> set (rows df_right).
               cell_at (columns df_right) m right_key = cell_at (columns transformed) row left_key \<and>
               out = row @ right_part left_key right_key (index_of (columns df_right) right_key) m) \<or>
            ((\<forall>m \<in> set (rows df_right).
               cell_at (columns df_right) m right_key \<noteq> cell_at (columns transformed) row left_key) \<and>
             out = row @ replicate (length (right_part left_key right_key
                     (index_of (columns df_right) right_key) (columns df_right))) NaN)"
    unfolding assms(10) using merge_rows_origin by blast
qed

theorem Join_call_left_outer_merge_witness:
  "Join_call re_fragment repr_columns_plain ''rs'' [labels_table, files_table]
       (Some files_source) (Some labels_source) =
     Inr (merge \<lparr>columns = [''name'', ''size''],
                  rows = [[Str ''1'', Str ''10''], [Str ''2'', Str ''20'']]\<rparr>
            labels_table ''name'' ''key'') \<and>
   merge \<lparr>columns = [''name'', ''size''],
          rows = [[Str ''1'', Str ''10''], [Str ''2'', Str ''20'']]\<rparr>
      labels_table ''name'' ''key'' =
     \<lparr>columns = [''name'', ''size'', ''key'', ''label''],
      rows = [[Str ''1'', Str ''10'', Str ''1'', Str ''cat''],
              [Str ''2'', Str ''20'', NaN, NaN]]\<rparr>"
proof -
  let ?t = "\<lparr>columns = [''name'', ''size''],
             rows = [[Str ''1'', Str ''10''], [Str ''2'', Str ''20'']]\<rparr>"
  have l: "reference files_source = Some [''files'', ''name'']"
    by (simp add: files_source_def)
  have r: "reference labels_source = Some [''labels'', ''key'']"
    by (simp add: labels_source_def)
  have n: "2 \<le> length [''labels'', ''key'']" and k: "''key'' = [''labels'', ''key''] ! 1"
    by simp_all
  have roles: "operand_roles ''name'' ''key'' labels_table files_table = (files_table, labels_table)"
    by (simp add: operand_roles_def labels_table_def files_table_def)
  have c: "''name'' \<in> set (columns files_table)" "''key'' \<in> set (columns labels_table)"
    by (simp_all add: files_table_def labels_table_def)
  have tr: "transform_series (\<lambda>value. apply_transforms_fn re_fragment value (Some files_source))
              (get_column files_table ''name'') = Inr [Str ''1'', Str ''2'']"
    by (simp add: get_column_def files_table_def cell_at_def files_source_def
        apply_transforms_fn_def apply_transform_fn_def re_fragment_def match_a_rest_def)
  have st: "?t = set_column files_table ''name'' [Str ''1'', Str ''2'']"
    by (simp add: set_column_def files_table_def)
  have "Join_call re_fragment repr_columns_plain ''rs'' [labels_table, files_table]
       (Some files_source) (Some labels_source) = Inr (merge ?t labels_table ''name'' ''key'')"
    using Join_call_left_outer_merge[OF l r n k roles c tr st refl,
        of repr_columns_plain "''rs''"]
    by blast
  moreover have "merge ?t labels_table ''name'' ''key'' =
     \<lparr>columns = [''name'', ''size'', ''key'', ''label''],
      rows = [[Str ''1'', Str ''10'', Str ''1'', Str ''cat''],
              [Str ''2'', Str ''20'', NaN, NaN]]\<rparr>"
    by (simp add: merge_def labels_table_def right_part_def cell_at_def)
  ultimately show ?thesis by simp
qed

lemma apply_transform_fn_Str:
  assumes "\<forall>r. regex t = Some r \<longrightarrow> re_compile r \<noteq> None"
  shows "\<exists>s'. apply_transform_fn re_compile (Str s) t = Inr (Str s')"
  using assms by (auto simp: apply_transform_fn_def split: option.splits)

lemma apply_transforms_loop_Str:
  assumes "\<forall>t \<in> set ts. \<forall>r. regex t = Some r \<longrightarrow> re_compile r \<noteq> None"
  shows "\<exists>s'. apply_transforms_loop re_compile (Str s) ts = Inr (Str s')"
  using assms
proof (induction ts arbitrary: s)
  case Nil
  then show ?case by simp
next
  case (Cons t ts)
  from Cons.prems have "\<forall>r. regex t = Some r \<longrightarrow> re_compile r \<noteq> None" by simp
  from apply_transform_fn_Str[OF this]
  obtain s1 where s1: "apply_transform_fn re_compile (Str s) t = Inr (Str s1)" by blast
  from Cons.prems have "\<forall>t \<in> set ts. \<forall>r. regex t = Some r \<longrightarrow> re_compile r \<noteq> None" by simp
  from Cons.IH[OF this]
  obtain s' where "apply_transforms_loop re_compile (Str s1) ts = Inr (Str s')" by blast
  with s1 show ?case by simp
qed

lemma transform_series_total:
  assumes "\<forall>x \<in> set xs. \<exists>y. f x = Inr y"
  shows "\<exists>ys. transform_series f xs = Inr ys"
  using assms by (induction xs) auto

text \<open>
  A two-operand call returns a table whenever its references are in place, its keys are
  columns of the operands once the roles are settled, the cells of the left key column
  are strings and the patterns of the left source compile.
\<close>

lemma Join_call_returns:
  assumes "reference l = Some [left_node, left_key]"
    and "reference r = Some right_reference" and "2 \<le> length right_reference"
    and "operand_roles left_key (right_reference ! 1) a b = (df_left, df_right)"
    and "left_key \<in> set (columns df_left)"
    and "right_reference ! 1 \<in> set (columns df_right)"
    and "\<forall>x \<in> set (get_column df_left left_key). \<exists>s. x = Str s"
    and "\<forall>t \<in> set (apply_transform l). \<forall>p. regex t = Some p \<longrightarrow> re_compile p \<noteq> None"
  shows "\<exists>result. Join_call re_compile repr_columns node_uid [a, b] (Some l) (Some r) = Inr result"
proof -
  have "\<forall>x \<in> set (get_column df_left left_key).
          \<exists>y. apply_transforms_fn re_compile x (Some l) = Inr y"
  proof
    fix x assume "x \<in> set (get_column df_left left_key)"
    with assms(7) obtain s where "x = Str s" by blast
    moreover from apply_transforms_loop_Str[OF assms(8)]
    obtain s' where "apply_transforms_loop re_compile (Str s) (apply_transform l) = Inr (Str s')"
      by blast
    ultimately show "\<exists>y. apply_transforms_fn re_compile x (Some l) = Inr y"
      by (simp add: apply_transforms_fn_def)
  qed
  from transform_series_total[OF this]
  obtain vals where "transform_series (\<lambda>value. apply_transforms_fn re_compile value (Some l))
      (get_column df_left left_key) = Inr vals"
    by blast
  then show ?thesis
    using Join_call_two_operands[OF assms(1,2,3,4), of re_compile repr_columns node_uid]
      assms(5,6)
    by simp
qed

section \<open>Properties of the Concatenate operation\<close>

lemma Concatenate_call_nonempty:
  assumes "paths \<noteq> []"
  shows "Concatenate_call paths =
     Inr \<lparr>columns = [FileProperty_filepath, FileProperty_filename, FileProperty_fullpath],
          rows = map (\<lambda>i. [filepath (paths ! i), filename (paths ! i), fullpath (paths ! i)])
                   [0..<length paths]\<rparr>"
  using assms by (simp add: Concatenate_call_def DataFrame_def)

text \<open>
  C6. With no input the call fails with the assertion error \<open>No path to concatenate.\<close>
  With \<open>k \<ge> 1\<close> path descriptors it returns a table whose columns are the three
  path properties, file path, file name and full path, and which has \<open>k\<close> rows, row
  \<open>i\<close> holding the three properties of input \<open>i\<close>.
\<close>

theorem Concatenate_call_rows:
  "Concatenate_call [] = Inl (AssertionError ''No path to concatenate.'') \<and>
   (1 \<le> length paths \<longrightarrow>
      (\<exists>df. Concatenate_call paths = Inr df \<and>
            columns df = [FileProperty_filepath, FileProperty_filename, FileProperty_fullpath] \<and>
            length (rows df) = length paths \<and>
            (\<forall>i < length paths.
               rows df ! i = [filepath (paths ! i), filename (paths ! i), fullpath (paths ! i)])))"
proof (intro conjI impI)
  show "Concatenate_call [] = Inl (AssertionError ''No path to concatenate.'')"
    by (simp add: Concatenate_call_def)
next
  assume "1 \<le> length paths"
  then have "paths \<noteq> []" by auto
  from Concatenate_call_nonempty[OF this]
  show "\<exists>df. Concatenate_call paths = Inr df \<and>
            columns df = [FileProperty_filepath, FileProperty_filename, FileProperty_fullpath] \<and>
            length (rows df) = length paths \<and>
            (\<forall>i < length paths.
               rows df ! i = [filepath (paths ! i), filename (paths ! i), fullpath (paths ! i)])"
    by simp
qed

theorem Concatenate_call_rows_witness:
  "Concatenate_call
     [\<lparr>filepath = ''/data/img/a1.jpg'', filename = ''a1.jpg'', fullpath = ''img/a1.jpg''\<rparr>,
      \<lparr>filepath = ''/data/img/a2.jpg'', filename = ''a2.jpg'', fullpath = ''img/a2.jpg''\<rparr>] =
   Inr \<lparr>columns = [FileProperty_filepath, FileProperty_filename, FileProperty_fullpath],
        rows = [[''/data/img/a1.jpg'', ''a1.jpg'', ''img/a1.jpg''],
                [''/data/img/a2.jpg'', ''a2.jpg'', ''img/a2.jpg'']]\<rparr>"
proof -
  let ?p1 = "\<lparr>filepath = ''/data/img/a1.jpg'', filename = ''a1.jpg'', fullpath = ''img/a1.jpg''\<rparr>"
  let ?p2 = "\<lparr>filepath = ''/data/img/a2.jpg'', filename = ''a2.jpg'', fullpath = ''img/a2.jpg''\<rparr>"
  from Concatenate_call_rows[of "[?p1, ?p2]"]
  obtain df where df: "Concatenate_call [?p1, ?p2] = Inr df"
    "columns df = [FileProperty_filepath, FileProperty_filename, FileProperty_fullpath]"
    "length (rows df) = 2"
    "\<forall>i < 2. rows df ! i = [filepath ([?p1, ?p2] ! i), filename ([?p1, ?p2] ! i),
                           fullpath ([?p1, ?p2] ! i)]"
    by auto
  from df(4) have "rows df ! 0 = [''/data/img/a1.jpg'', ''a1.jpg'', ''img/a1.jpg'']"
    and "rows df ! 1 = [''/data/img/a2.jpg'', ''a2.jpg'', ''img/a2.jpg'']"
    by simp_all
  with df(3) have "rows df = [[''/data/img/a1.jpg'', ''a1.jpg'', ''img/a1.jpg''],
                [''/data/img/a2.jpg'', ''a2.jpg'', ''img/a2.jpg'']]"
    by (cases "rows df"; cases "tl (rows df)") auto
  with df(1,2) show ?thesis by simp
qed

section \<open>Properties of the Data operation\<close>

lemma set_unique_in_order: "set (unique_in_order xs) = set xs"
  by (induction xs) auto

lemma distinct_unique_in_order: "distinct (unique_in_order xs)"
  by (induction xs) (auto simp: distinct_removeAll)

lemma from_records_list_of_dicts:
  "from_records other_shape (JArray (map JObject records)) =
     Inr \<lparr>columns = unique_in_order (concat (map (map fst) records)),
          rows = map (\<lambda>entries. map (map_of entries)
                   (unique_in_order (concat (map (map fst) records)))) records\<rparr>"
proof -
  have "list_all is_JObject (map JObject records)"
    by (simp add: list_all_iff is_JObject_def)
  moreover have "map (\<lambda>item. map fst (entries_of item)) (map JObject records) =
                 map (map fst) records"
    by (simp add: entries_of_def comp_def)
  ultimately show ?thesis
    by (simp add: from_records_def Let_def entries_of_def comp_def)
qed

text \<open>
  C7. The Data operation has no operand. For a record set whose inline data is the text
  of a JSON array of records, it returns a table with one column for each field name of
  the records, each name once, in the order of first appearance, and one row for each
  record, in order; the row of a record holds under each column the value the record has
  for that field, and the missing value where the record has no such field.
\<close>

theorem Data_call_records:
  assumes "data node = Some literal"
    and "json_loads literal = Inr (JArray (map JObject records))"
  shows "\<exists>df. Data_call json_loads other_shape node = Inr df \<and>
           columns df = unique_in_order (concat (map (map fst) records)) \<and>
           distinct (columns df) \<and>
           set (columns df) = (\<Union>entries \<in> set records. fst ` set entries) \<and>
           length (rows df) = length records \<and>
           (\<forall>i < length records. rows df ! i = map (map_of (records ! i)) (columns df))"
proof -
  let ?cols = "unique_in_order (concat (map (map fst) records))"
  let ?df = "\<lparr>columns = ?cols, rows = map (\<lambda>entries. map (map_of entries) ?cols) records\<rparr>"
  have run: "Data_call json_loads other_shape node = Inr ?df"
    using assms by (simp add: Data_call_def from_records_list_of_dicts)
  have "set ?cols = (\<Union>entries \<in> set records. fst ` set entries)"
    by (simp add: set_unique_in_order)
  moreover have "distinct ?cols"
    by (rule distinct_unique_in_order)
  ultimately show ?thesis
    using run by (intro exI[of _ ?df]) simp
qed

theorem Data_call_records_witness:
  "Data_call json_loads_sample no_other_shape \<lparr>record_set_name = ''users'', data = Some users_json\<rparr> =
     Inr \<lparr>columns = [''name'', ''age'', ''email''],
          rows = [[Some (JString ''ann''), Some (JInt 30), None],
                  [Some (JString ''bob''), None, Some JNull]]\<rparr>"
proof -
  let ?node = "\<lparr>record_set_name = ''users'', data = Some users_json\<rparr>"
  let ?records = "[[(''name'', JString ''ann''), (''age'', JInt 30)],
                   [(''name'', JString ''bob''), (''email'', JNull :: unit json)]]"
  have d: "data ?node = Some users_json" by simp
  have j: "json_loads_sample users_json = Inr (JArray (map JObject ?records))"
    by (simp add: json_loads_sample_def)
  from Data_call_records[where json_loads = json_loads_sample and node = ?node
      and literal = users_json and records = ?records and other_shape = no_other_shape, OF d j]
  obtain df where df: "Data_call json_loads_sample no_other_shape ?node = Inr df"
    "columns df = unique_in_order (concat (map (map fst) ?records))"
    "length (rows df) = length ?records"
    "\<forall>i < length ?records. rows df ! i = map (map_of (?records ! i)) (columns df)"
    by blast
  from df(2) have cols: "columns df = [''name'', ''age'', ''email'']" by simp
  from df(4) have "rows df ! 0 = map (map_of (?records ! 0)) (columns df)"
    and "rows df ! 1 = map (map_of (?records ! 1)) (columns df)"
    by simp_all
  then have "rows df ! 0 = [Some (JString ''ann''), Some (JInt 30), None]"
    and "rows df ! 1 = [Some (JString ''bob''), None, Some JNull]"
    unfolding cols by simp_all
  moreover from df(3) have "length (rows df) = 2" by simp
  ultimately have "rows df = [[Some (JString ''ann''), Some (JInt 30), None],
                  [Some (JString ''bob''), None, Some JNull]]"
    by (cases "rows df"; cases "tl (rows df)") auto
  with df(1) cols show ?thesis by simp
qed

section \<open>Properties of the data type of a Field\<close>

lemma data_type_along_walk:
  "walk g f k a \<Longrightarrow> data_type g (k + n) f log = data_type g n a log"
proof (induction arbitrary: n rule: walk.induct)
  case (here g f)
  then show ?case by simp
next
  case (step g f k h p ps)
  have "data_type g (Suc k + n) f log = data_type g (k + Suc n) f log" by simp
  also have "\<dots> = data_type g (Suc n) h log" by (rule step.IH)
  also have "\<dots> = data_type g n p log" using step.hyps(2,3) by simp
  finally show ?case .
qed

lemma data_type_no_predecessor:
  assumes "field_data_type a = None" and "g (Field a) = Some []"
  shows "data_type g (Suc n) a log = (Inr None, log @ [(Field a, no_data_type_message)])"
  using assms by (simp add: add_error_def)

lemma data_type_other_predecessor:
  assumes "field_data_type a = None" and "g (Field a) = Some (Other_node u # ps)"
  shows "data_type g (Suc n) a log = (Inr None, log @ [(Field a, no_data_type_message)])"
  using assms by (simp add: add_error_def)

lemma sublist_data_type_property: "sublist ML_COMMONS_DATA_TYPE no_data_type_message"
  unfolding no_data_type_message_def by (rule sublist_appendI)

text \<open>
  What the code computes along its walk, which goes, at each step, from a Field that
  declares no data type to the first predecessor the graph lists, a Field. When the walk
  reaches a Field that declares a data type, that type is the result and nothing is
  recorded. When the walk ends at a Field that declares no type and has no predecessor,
  or whose first predecessor is not a Field, the result is no type and one error is
  recorded, whose message names the data-type property. Both hold whenever the depth
  allowed to the calls exceeds the length of the walk. Where the parent of every Field on
  the way is the first predecessor listed, this is the resolution through the parent
  fields.
\<close>

lemma data_type_resolution:
  assumes "walk g f k a" and "k < depth"
  shows "(field_data_type a = Some t \<longrightarrow> data_type g depth f log = (Inr (Some t), log)) \<and>
         (field_data_type a = None \<and>
            (g (Field a) = Some [] \<or> (\<exists>u ps. g (Field a) = Some (Other_node u # ps))) \<longrightarrow>
            data_type g depth f log = (Inr None, log @ [(Field a, no_data_type_message)]) \<and>
            sublist ML_COMMONS_DATA_TYPE no_data_type_message)"
proof -
  define n where "n = depth - Suc k"
  with assms(2) have depth: "depth = k + Suc n" by simp
  have along: "data_type g depth f log = data_type g (Suc n) a log"
    unfolding depth by (rule data_type_along_walk[OF assms(1)])
  show ?thesis
  proof (intro conjI impI)
    assume "field_data_type a = Some t"
    then show "data_type g depth f log = (Inr (Some t), log)"
      unfolding along by simp
  next
    assume "field_data_type a = None \<and>
            (g (Field a) = Some [] \<or> (\<exists>u ps. g (Field a) = Some (Other_node u # ps)))"
    then have none: "field_data_type a = None"
      and pred: "g (Field a) = Some [] \<or> (\<exists>u ps. g (Field a) = Some (Other_node u # ps))"
      by simp_all
    from pred show "data_type g depth f log = (Inr None, log @ [(Field a, no_data_type_message)])"
    proof
      assume "g (Field a) = Some []"
      with none show ?thesis unfolding along by (rule data_type_no_predecessor)
    next
      assume "\<exists>u ps. g (Field a) = Some (Other_node u # ps)"
      then obtain u ps where "g (Field a) = Some (Other_node u # ps)" by blast
      with none show ?thesis unfolding along by (rule data_type_other_predecessor)
    qed
  next
    show "sublist ML_COMMONS_DATA_TYPE no_data_type_message"
      by (rule sublist_data_type_property)
  qed
qed

text \<open>
  The resolution yields no type only together with the error: whenever the result is no
  type, the log has grown by exactly one entry, the message of the missing data type
  reported by a Field.
\<close>

lemma data_type_None_records:
  "data_type g depth f log = (Inr None, log') \<Longrightarrow>
     \<exists>a. log' = log @ [(Field a, no_data_type_message)]"
proof (induction g depth f log rule: data_type.induct)
  case (1 g self log)
  then show ?case by simp
next
  case (2 g depth self log)
  then show ?case
    by (auto simp: add_error_def split: option.splits list.splits node.splits)
qed

lemma walk_year_date: "walk sample_graph year_field 1 date_field"
proof -
  have "walk sample_graph year_field 0 year_field" by (rule walk.here)
  moreover have "field_data_type year_field = None" by (simp add: year_field_def)
  moreover have "sample_graph (Field year_field) = Some (Field date_field # [])"
    by (simp add: sample_graph_def year_field_def date_field_def)
  ultimately have "walk sample_graph year_field (Suc 0) date_field" by (rule walk.step)
  then show ?thesis by simp
qed

lemma data_type_resolution_example:
  "data_type sample_graph 1000 year_field [] = (Inr (Some ''https://schema.org/Date''), []) \<and>
   data_type sample_graph 1000 id_field [] =
     (Inr None, [(Field id_field, no_data_type_message)]) \<and>
   sublist ML_COMMONS_DATA_TYPE no_data_type_message"
proof -
  have t: "field_data_type date_field = Some ''https://schema.org/Date''"
    by (simp add: date_field_def)
  have "data_type sample_graph 1000 year_field [] = (Inr (Some ''https://schema.org/Date''), [])"
    using data_type_resolution[OF walk_year_date, of 1000 "''https://schema.org/Date''" "[]"] t
    by simp
  moreover have "walk sample_graph id_field 0 id_field" by (rule walk.here)
  from data_type_resolution[OF this, of 1000 "[]" "[]"]
  have "data_type sample_graph 1000 id_field [] =
     (Inr None, [(Field id_field, no_data_type_message)]) \<and>
     sublist ML_COMMONS_DATA_TYPE no_data_type_message"
    by (simp add: id_field_def sample_graph_def date_field_def year_field_def)
  ultimately show ?thesis by simp
qed

text \<open>
  C9. The data type of a Field without a declared type is that of the nearest ancestor
  Field that declares one; the docstring of \<open>data_type\<close> places it on the node
  or on one of the parent fields. The code misses this where the parent is not the first
  predecessor listed: the sub-field \<open>rs/date/year\<close> declares no type, its
  predecessors are the distribution it reads from, listed first, and its parent field
  \<open>rs/date\<close>, which declares the type \<open>Date\<close>. The resolution through
  the predecessor Fields gives \<open>Date\<close>; the code looks at the first predecessor
  only, which is not a Field, records that neither the field nor any predecessor specifies
  a data type, and yields no type.
\<close>

theorem data_type_parent_not_first:
  "field_data_type year_field = None \<and>
   two_predecessors_graph (Field year_field) = Some [Other_node ''a-csv-table'', Field date_field] \<and>
   field_data_type date_field = Some ''https://schema.org/Date'' \<and>
   spec_nearest_declared_type two_predecessors_graph 1000
     (field_predecessors two_predecessors_graph year_field) = Some ''https://schema.org/Date'' \<and>
   data_type two_predecessors_graph 1000 year_field [] =
     (Inr None, [(Field year_field, no_data_type_message)])"
proof -
  have g: "two_predecessors_graph (Field year_field) =
           Some [Other_node ''a-csv-table'', Field date_field]"
    by (simp add: two_predecessors_graph_def year_field_def date_field_def)
  have y: "field_data_type year_field = None" by (simp add: year_field_def)
  have d: "field_data_type date_field = Some ''https://schema.org/Date''"
    by (simp add: date_field_def)
  have n: "(1000::nat) = Suc 999" by simp
  have "field_predecessors two_predecessors_graph year_field = [date_field]"
    by (simp add: field_predecessors_def g)
  then have s: "spec_nearest_declared_type two_predecessors_graph 1000
     (field_predecessors two_predecessors_graph year_field) = Some ''https://schema.org/Date''"
    unfolding n spec_nearest_declared_type.simps by (simp add: d)
  have "data_type two_predecessors_graph 1000 year_field [] =
     (Inr None, [(Field year_field, no_data_type_message)])"
    unfolding n data_type.simps by (simp add: y g add_error_def)
  with g y d s show ?thesis by simp
qed

end
